theory Spec2Isabelle
  imports Main
begin

section \<open>noise\_recorder: recording a noise with every input device\<close>

text \<open>
  A shallow embedding of \<^verbatim>\<open>recorder.py\<close>: the device directory name computed by
  \<^verbatim>\<open>_RecordingSession.run\<close>, the life of one recording session (its thread and the
  audio callback), and the \<^verbatim>\<open>Recorder\<close> that starts, tracks and stops the sessions.
\<close>

subsection \<open>Exceptions\<close>

text \<open>
  The exceptions the program raises or receives from the libraries it calls.
  \<^verbatim>\<open>queue.Empty\<close> is what \<^verbatim>\<open>Queue.get(timeout=...)\<close> raises when the timeout passes
  with nothing in the queue; Python declares it as \<^verbatim>\<open>class Empty(Exception)\<close>, so it is
  not a \<^verbatim>\<open>TimeoutError\<close> (which derives from \<^verbatim>\<open>OSError\<close>).
\<close>

datatype exn =
    RuntimeError string
  | AttributeError string
  | TypeError string
  | ValueError string
  | OSError string
  | TimeoutError
  | QueueEmpty
  | PortAudioError string
  | LibsndfileError string

text \<open>\<^verbatim>\<open>except TimeoutError\<close>: the handler takes instances of that class only.\<close>

fun is_TimeoutError :: "exn \<Rightarrow> bool" where
  "is_TimeoutError TimeoutError = True"
| "is_TimeoutError _ = False"

subsection \<open>The directory of a device\<close>

text \<open>The character class \<^verbatim>\<open>[a-zA-Z0-9]\<close>.\<close>

definition alnum :: "char \<Rightarrow> bool" where
  "alnum c = (let n = (of_char c :: nat) in
     (97 \<le> n \<and> n \<le> 122) \<or> (65 \<le> n \<and> n \<le> 90) \<or> (48 \<le> n \<and> n \<le> 57))"

text \<open>
  \<^verbatim>\<open>re.sub("[^a-zA-Z0-9]+", "_", s)\<close>: scanning from the left, a character of the class
  is kept; at a character outside it the greedy \<^verbatim>\<open>+\<close> takes every following character
  outside the class as well, and the whole match is replaced by one underscore.
\<close>

function re_sub :: "string \<Rightarrow> string" where
  "re_sub [] = []"
| "re_sub (c # cs) =
     (if alnum c then c # re_sub cs
      else CHR ''_'' # re_sub (dropWhile (\<lambda>d. \<not> alnum d) cs))"
  by pat_completeness auto
termination
  by (relation "measure length") (auto simp: le_imp_less_Suc length_dropWhile_le)

text \<open>
  \<^verbatim>\<open>mic_directory = re.sub(...)\<close>, then
  \<^verbatim>\<open>if len(mic_directory) > 40: mic_directory = mic_directory[:40]\<close>.
\<close>

definition mic_directory :: "string \<Rightarrow> string" where
  "mic_directory device_name =
     (let d = re_sub device_name in if length d > 40 then take 40 d else d)"

text \<open>
  The specification's wording, for comparison: the name is cut into its maximal runs of
  characters that are all alphanumeric or all non-alphanumeric, every non-alphanumeric
  run is replaced by a single separator, and the result is cut to 40 characters.
\<close>

function runs :: "('a \<Rightarrow> bool) \<Rightarrow> 'a list \<Rightarrow> 'a list list" where
  "runs P [] = []"
| "runs P (x # xs) =
     (x # takeWhile (\<lambda>y. P y = P x) xs) # runs P (dropWhile (\<lambda>y. P y = P x) xs)"
  by pat_completeness auto
termination
  by (relation "measure (\<lambda>(P, xs). length xs)")
     (auto simp: le_imp_less_Suc length_dropWhile_le)

definition spec_directory_name :: "string \<Rightarrow> string" where
  "spec_directory_name device_name =
     take 40 (concat (map (\<lambda>r. if alnum (hd r) then r else ''_'') (runs alnum device_name)))"

subsection \<open>The libraries the program calls\<close>

text \<open>
  One block of samples, as the audio callback receives it (\<^verbatim>\<open>indata.copy()\<close>). The
  program never looks at the values of the samples.
\<close>

type_synonym chunk = "int list"

text \<open>A path, as the list of its components.\<close>

type_synonym path = "string list"

text \<open>
  Modelled from the spec: the device query boundary of the \<^verbatim>\<open>sounddevice\<close> library,
  which is not part of the repository: the default input device with its host API, the
  device indices of a host API, and the resolution of an index as an input device, which
  fails (\<^verbatim>\<open>ValueError\<close>, here \<open>None\<close>) for a device that is not an input device.
\<close>

record device =
  dev_name :: string
  dev_hostapi :: nat

record audio =
  default_input :: device
  hostapi_devices :: "nat \<Rightarrow> nat list"
  query_input :: "nat \<Rightarrow> device option"

text \<open>The file system: the audio files with the blocks written to them, and the directories.\<close>

record filesys =
  files :: "path \<Rightarrow> chunk list option"
  dirs :: "path set"

text \<open>
  \<^verbatim>\<open>directory.mkdir(parents=True, exist_ok=True)\<close>: creates the directory and its parents;
  an existing directory is no error, a file in the way is.
\<close>

definition mkdir_parents :: "path \<Rightarrow> filesys \<Rightarrow> exn + filesys" where
  "mkdir_parents dir fsys =
     (let ps = map (\<lambda>n. take n dir) [1..<Suc (length dir)] in
      if list_ex (\<lambda>p. files fsys p \<noteq> None) ps then Inl (OSError ''File exists'')
      else Inr (fsys\<lparr>dirs := dirs fsys \<union> set ps\<rparr>))"

text \<open>
  \<^verbatim>\<open>tempfile.mktemp(prefix=..., suffix=..., dir=...)\<close>: the first of the candidate names
  (drawn by the library's random name generator, here \<open>names\<close>) for which nothing exists
  in the directory at the time of the call. The file is not created.
\<close>

definition mktemp :: "filesys \<Rightarrow> string \<Rightarrow> string \<Rightarrow> path \<Rightarrow> string list \<Rightarrow> exn + path" where
  "mktemp fsys prefix suffix dir names =
     (case find (\<lambda>n. files fsys (dir @ [prefix @ n @ suffix]) = None
                      \<and> dir @ [prefix @ n @ suffix] \<notin> dirs fsys) names of
        Some n \<Rightarrow> Inr (dir @ [prefix @ n @ suffix])
      | None \<Rightarrow> Inl (OSError ''No usable temporary filename found''))"

text \<open>
  Modelled from the spec: the container write boundary of the \<^verbatim>\<open>soundfile\<close> library,
  which is not part of the repository:
  \<^verbatim>\<open>create(path, mode=exclusive-create, ...) -> file handle | error-if-exists\<close> and
  \<^verbatim>\<open>append(file handle, buffer)\<close>.
\<close>

definition SoundFile_open_x :: "filesys \<Rightarrow> path \<Rightarrow> exn + filesys" where
  "SoundFile_open_x fsys p =
     (case files fsys p of
        Some old \<Rightarrow> Inl (OSError ''File exists'')
      | None \<Rightarrow> Inr (fsys\<lparr>files := (files fsys)(p \<mapsto> [])\<rparr>))"

definition content :: "filesys \<Rightarrow> path \<Rightarrow> chunk list" where
  "content fsys p = (case files fsys p of Some cs \<Rightarrow> cs | None \<Rightarrow> [])"

definition SoundFile_write :: "filesys \<Rightarrow> path \<Rightarrow> chunk \<Rightarrow> filesys" where
  "SoundFile_write fsys p c = fsys\<lparr>files := (files fsys)(p \<mapsto> content fsys p @ [c])\<rparr>"

subsection \<open>One recording session\<close>

text \<open>
  Where the thread of a session stands in \<^verbatim>\<open>run\<close>:
  \<^item> \<open>AtSetup\<close>: started, before line 53;
  \<^item> \<open>AtOpen\<close>: lines 53 to 66 are done, the file name is chosen, the \<^verbatim>\<open>try\<close> is next;
  \<^item> \<open>LoopHead\<close>: file and input stream are open, the test \<^verbatim>\<open>while not self._exit\<close> is next;
  \<^item> \<open>InGet\<close>: inside \<^verbatim>\<open>self._chunk_queue.get(timeout=3)\<close>;
  \<^item> \<open>Finished\<close>: the loop was left, file and stream are closed, \<^verbatim>\<open>run\<close> has returned;
  \<^item> \<open>Aborted e\<close>: \<^verbatim>\<open>except Exception as e\<close> caught \<open>e\<close>, reported it and returned;
  \<^item> \<open>Crashed e\<close>: \<open>e\<close> was raised before the \<^verbatim>\<open>try\<close> and ended the thread.
\<close>

datatype location = AtSetup | AtOpen | LoopHead | InGet | Finished | Aborted exn | Crashed exn

record session =
  noise_name :: string
  device_index :: nat
  recordings_dir :: string
  exit_flag :: bool
  chunk_queue :: "chunk list"
  pc :: location
  file_name :: path

definition DEFAULT_RECORDINGS_DIR :: string where
  "DEFAULT_RECORDINGS_DIR = ''./noise_recordings''"

text \<open>
  \<^verbatim>\<open>_RecordingSession(noise_name, device_index)\<close> followed by \<^verbatim>\<open>start()\<close>. Starting a
  thread is taken to succeed, so a session that a \<^verbatim>\<open>Recorder\<close> tracks has a running or
  ended thread and \<^verbatim>\<open>join\<close> on it does not raise.
\<close>

definition started_session :: "string \<Rightarrow> nat \<Rightarrow> session" where
  "started_session noise index =
     \<lparr>noise_name = noise, device_index = index, recordings_dir = DEFAULT_RECORDINGS_DIR,
      exit_flag = False, chunk_queue = [], pc = AtSetup, file_name = []\<rparr>"

text \<open>\<^verbatim>\<open>_RecordingSession.stop\<close>: \<^verbatim>\<open>self._exit = True\<close>.\<close>

definition session_stop :: "session \<Rightarrow> session" where
  "session_stop s = s\<lparr>exit_flag := True\<rparr>"

text \<open>
  \<^verbatim>\<open>_RecordingSession.callback\<close>: \<^verbatim>\<open>self._chunk_queue.put(indata.copy())\<close>. The queue
  has no bound, so \<^verbatim>\<open>put\<close> never blocks; a status is only printed.
\<close>

definition callback :: "session \<Rightarrow> chunk \<Rightarrow> session" where
  "callback s indata = s\<lparr>chunk_queue := chunk_queue s @ [indata]\<rparr>"

text \<open>
  What the surroundings decide in one step of the thread: the candidate names of
  \<^verbatim>\<open>mktemp\<close>, the exception raised when the input stream is opened (if any), and the
  exception raised by \<^verbatim>\<open>file.write\<close> (if any).
\<close>

record env =
  temp_names :: "string list"
  stream_fault :: "exn option"
  write_fault :: "exn option"

text \<open>
  An exception raised in the body of the loop meets \<^verbatim>\<open>except TimeoutError: pass\<close> first,
  which sends the thread back to the loop test; any other exception leaves both
  \<^verbatim>\<open>with\<close> blocks and is caught by \<^verbatim>\<open>except Exception as e\<close>, which reports and returns.
\<close>

definition handle_in_loop :: "exn \<Rightarrow> location" where
  "handle_in_loop e = (if is_TimeoutError e then LoopHead else Aborted e)"

text \<open>
  One step of \<^verbatim>\<open>run\<close>. A step at \<open>InGet\<close> ends the call of \<^verbatim>\<open>get\<close>: with the head of
  the queue when there is one, and otherwise with \<^verbatim>\<open>queue.Empty\<close>, the timeout of three
  seconds having passed with no block delivered (a block delivered in time is a
  \<open>callback\<close> before this step).
\<close>

definition run_step :: "audio \<Rightarrow> env \<Rightarrow> filesys \<times> session \<Rightarrow> filesys \<times> session" where
  "run_step a e st =
     (case st of (fsys, s) \<Rightarrow>
       (case pc s of
          AtSetup \<Rightarrow>
            (case query_input a (device_index s) of
               None \<Rightarrow> (fsys, s\<lparr>pc := Crashed (ValueError ''Not an input device'')\<rparr>)
             | Some dev \<Rightarrow>
                 (let directory = [recordings_dir s, mic_directory (dev_name dev)] in
                  case mkdir_parents directory fsys of
                    Inl x \<Rightarrow> (fsys, s\<lparr>pc := Crashed x\<rparr>)
                  | Inr fsys1 \<Rightarrow>
                      (case mktemp fsys1 (noise_name s @ ''_'') ''.flac'' directory
                              (temp_names e) of
                         Inl x \<Rightarrow> (fsys1, s\<lparr>pc := Crashed x\<rparr>)
                       | Inr f \<Rightarrow> (fsys1, s\<lparr>pc := AtOpen, file_name := f\<rparr>))))
        | AtOpen \<Rightarrow>
            (case SoundFile_open_x fsys (file_name s) of
               Inl x \<Rightarrow> (fsys, s\<lparr>pc := Aborted x\<rparr>)
             | Inr fsys1 \<Rightarrow>
                 (case stream_fault e of
                    Some x \<Rightarrow> (fsys1, s\<lparr>pc := Aborted x\<rparr>)
                  | None \<Rightarrow> (fsys1, s\<lparr>pc := LoopHead\<rparr>)))
        | LoopHead \<Rightarrow> (fsys, s\<lparr>pc := (if exit_flag s then Finished else InGet)\<rparr>)
        | InGet \<Rightarrow>
            (case chunk_queue s of
               [] \<Rightarrow> (fsys, s\<lparr>pc := handle_in_loop QueueEmpty\<rparr>)
             | c # cs \<Rightarrow>
                 (case write_fault e of
                    Some x \<Rightarrow> (fsys, s\<lparr>chunk_queue := cs, pc := handle_in_loop x\<rparr>)
                  | None \<Rightarrow>
                      (SoundFile_write fsys (file_name s) c,
                       s\<lparr>chunk_queue := cs, pc := LoopHead\<rparr>)))
        | Finished \<Rightarrow> (fsys, s)
        | Aborted x \<Rightarrow> (fsys, s)
        | Crashed x \<Rightarrow> (fsys, s)))"

text \<open>
  What can happen to a session: its thread takes a step, the audio subsystem delivers a
  block to its callback, or somebody calls its \<^verbatim>\<open>stop\<close>.
\<close>

datatype event = Thread env | Callback chunk | RequestStop

fun session_event :: "audio \<Rightarrow> event \<Rightarrow> filesys \<times> session \<Rightarrow> filesys \<times> session" where
  "session_event a (Thread e) st = run_step a e st"
| "session_event a (Callback c) st = (fst st, callback (snd st) c)"
| "session_event a RequestStop st = (fst st, session_stop (snd st))"

definition session_run :: "audio \<Rightarrow> event list \<Rightarrow> filesys \<times> session \<Rightarrow> filesys \<times> session" where
  "session_run a evs st = fold (session_event a) evs st"




fun exited :: "location \<Rightarrow> bool" where
  "exited Finished = True"
| "exited (Aborted x) = True"
| "exited (Crashed x) = True"
| "exited AtSetup = False"
| "exited AtOpen = False"
| "exited LoopHead = False"
| "exited InGet = False"

subsection \<open>The recorder\<close>

text \<open>
  The objects of the program: the list \<^verbatim>\<open>Recorder._recording_threads\<close>, which holds
  references to session objects; the session objects created so far (a reference is
  the position in this list); and the file system. The methods of \<^verbatim>\<open>Recorder\<close> run
  under \<^verbatim>\<open>self._lock\<close>, so each is one step with respect to the others.
\<close>

record world =
  recording_threads :: "nat list"
  sessions :: "session list"
  disk :: filesys

text \<open>\<^verbatim>\<open>Recorder.__init__\<close>.\<close>

definition Recorder_init :: "filesys \<Rightarrow> world" where
  "Recorder_init fsys = \<lparr>recording_threads = [], sessions = [], disk = fsys\<rparr>"

text \<open>An event of the session behind reference \<open>i\<close>.\<close>

definition pipeline_event :: "audio \<Rightarrow> nat \<times> event \<Rightarrow> world \<Rightarrow> world" where
  "pipeline_event a ie w =
     (case ie of (i, ev) \<Rightarrow>
        if i < length (sessions w) then
          (case session_event a ev (disk w, sessions w ! i) of
             (fsys, s) \<Rightarrow> w\<lparr>sessions := (sessions w)[i := s], disk := fsys\<rparr>)
        else w)"

definition pipelines_run :: "audio \<Rightarrow> (nat \<times> event) list \<Rightarrow> world \<Rightarrow> world" where
  "pipelines_run a evs w = fold (pipeline_event a) evs w"

text \<open>
  \<^verbatim>\<open>input_devices\<close>: the devices of the default input's host API that resolve as input
  devices; the others are skipped.
\<close>

definition input_devices :: "audio \<Rightarrow> (nat \<times> device) list" where
  "input_devices a =
     List.map_filter (\<lambda>index. map_option (Pair index) (query_input a index))
       (hostapi_devices a (dev_hostapi (default_input a)))"

text \<open>The body of the loop of \<^verbatim>\<open>record\<close>: create the session, append it, start it.\<close>

definition spawn :: "string \<Rightarrow> nat \<times> device \<Rightarrow> world \<Rightarrow> world" where
  "spawn noise d w =
     w\<lparr>recording_threads := recording_threads w @ [length (sessions w)],
       sessions := sessions w @ [started_session noise (fst d)]\<rparr>"

text \<open>\<^verbatim>\<open>Recorder.record\<close>.\<close>

definition Recorder_record :: "audio \<Rightarrow> string \<Rightarrow> world \<Rightarrow> (exn + unit) \<times> world" where
  "Recorder_record a noise w =
     (if recording_threads w \<noteq> [] then
        (Inl (RuntimeError ''Already recording. Please `stop` the previous recording first.''), w)
      else (Inr (), fold (spawn noise) (input_devices a) w))"

text \<open>\<^verbatim>\<open>Recorder.recording\<close>: \<^verbatim>\<open>bool(self._recording_threads)\<close>.\<close>

definition Recorder_recording :: "world \<Rightarrow> bool" where
  "Recorder_recording w = (recording_threads w \<noteq> [])"

text \<open>\<^verbatim>\<open>session.stop()\<close> on the session behind a reference.\<close>

definition stop_session :: "nat \<Rightarrow> world \<Rightarrow> world" where
  "stop_session i w =
     (if i < length (sessions w) then
        w\<lparr>sessions := (sessions w)[i := session_stop (sessions w ! i)]\<rparr>
      else w)"

text \<open>
  \<^verbatim>\<open>session.join(timeout=1)\<close>: the caller waits until the thread has ended or the second
  has passed, and gets \<^verbatim>\<open>None\<close> either way. While it waits the sessions go on; \<open>during\<close>
  is what they do in that time.
\<close>

definition join :: "audio \<Rightarrow> (nat \<times> event) list \<Rightarrow> nat \<Rightarrow> world \<Rightarrow> world" where
  "join a during i w = pipelines_run a during w"

text \<open>\<^verbatim>\<open>Recorder.stop\<close>; \<open>during i\<close> is what happens while session \<open>i\<close> is joined.\<close>

definition Recorder_stop :: "audio \<Rightarrow> (nat \<Rightarrow> (nat \<times> event) list) \<Rightarrow> world \<Rightarrow> world" where
  "Recorder_stop a during w =
     (let w1 = fold stop_session (recording_threads w) w;
          w2 = fold (\<lambda>i. join a (during i) i) (recording_threads w) w1
      in w2\<lparr>recording_threads := []\<rparr>)"

text \<open>
  \<^verbatim>\<open>self.<name>()\<close> on a \<^verbatim>\<open>Recorder\<close>: the attribute is looked up and called with no
  argument. The class has the methods \<^verbatim>\<open>__init__\<close>, \<^verbatim>\<open>record\<close>, \<^verbatim>\<open>recording\<close>,
  \<^verbatim>\<open>stop\<close> and \<^verbatim>\<open>__del__\<close>, and an object the fields \<^verbatim>\<open>_recording_threads\<close> and
  \<^verbatim>\<open>_lock\<close>; the lookup of any other name raises \<^verbatim>\<open>AttributeError\<close>. \<^verbatim>\<open>record\<close> needs
  an argument, the two fields cannot be called, and \<^verbatim>\<open>__del__\<close> only runs a call that
  raises and drops what it raised.
\<close>

definition Recorder_call :: "string \<Rightarrow> audio \<Rightarrow> (nat \<Rightarrow> (nat \<times> event) list) \<Rightarrow> world \<Rightarrow> exn + world" where
  "Recorder_call attr a during w =
     (if attr = ''stop'' then Inr (Recorder_stop a during w)
      else if attr = ''recording'' then Inr w
      else if attr = ''__init__'' then Inr (w\<lparr>recording_threads := []\<rparr>)
      else if attr = ''__del__'' then Inr w
      else if attr = ''record'' then
        Inl (TypeError ''record() missing 1 required positional argument'')
      else if attr = ''_recording_threads'' then Inl (TypeError ''list object is not callable'')
      else if attr = ''_lock'' then Inl (TypeError ''lock object is not callable'')
      else Inl (AttributeError attr))"

text \<open>
  \<^verbatim>\<open>Recorder.__del__\<close>: \<^verbatim>\<open>try: self._stop()\<close>, \<^verbatim>\<open>except: pass\<close>. Whatever is raised in
  the \<^verbatim>\<open>try\<close> is dropped.
\<close>

definition Recorder_del :: "audio \<Rightarrow> (nat \<Rightarrow> (nat \<times> event) list) \<Rightarrow> world \<Rightarrow> world" where
  "Recorder_del a during w =
     (case Recorder_call ''_stop'' a during w of
        Inl x \<Rightarrow> w
      | Inr w1 \<Rightarrow> w1)"

subsection \<open>Sequences of calls\<close>

text \<open>
  A caller's view: calls of \<^verbatim>\<open>record\<close> and \<^verbatim>\<open>stop\<close>, with the activity of the sessions
  in between. Running a sequence gives the log of the calls with their results, and the
  final state.
\<close>

datatype call =
    Start audio string
  | Stop audio "nat \<Rightarrow> (nat \<times> event) list"
  | Activity audio "(nat \<times> event) list"

fun exec_call :: "call \<Rightarrow> world \<Rightarrow> (exn + unit) \<times> world" where
  "exec_call (Start a noise) w = Recorder_record a noise w"
| "exec_call (Stop a during) w = (Inr (), Recorder_stop a during w)"
| "exec_call (Activity a evs) w = (Inr (), pipelines_run a evs w)"

fun exec :: "call list \<Rightarrow> world \<Rightarrow> (call \<times> (exn + unit)) list \<times> world" where
  "exec [] w = ([], w)"
| "exec (c # cs) w =
     (case exec_call c w of (r, w1) \<Rightarrow>
        (case exec cs w1 of (log, w2) \<Rightarrow> ((c, r) # log, w2)))"

fun no_stop :: "(call \<times> (exn + unit)) list \<Rightarrow> bool" where
  "no_stop [] = True"
| "no_stop ((Stop a during, r) # log) = False"
| "no_stop ((Start a noise, r) # log) = no_stop log"
| "no_stop ((Activity a evs, r) # log) = no_stop log"

text \<open>
  The specification's wording: some \<^verbatim>\<open>Start\<close> has returned successfully and no \<^verbatim>\<open>Stop\<close>
  has been called after it.
\<close>

fun spec_is_recording :: "(call \<times> (exn + unit)) list \<Rightarrow> bool" where
  "spec_is_recording [] = False"
| "spec_is_recording ((Start a noise, Inr u) # log) = (no_stop log \<or> spec_is_recording log)"
| "spec_is_recording ((c, r) # log) = spec_is_recording log"

text \<open>
  The same with one more condition: the \<^verbatim>\<open>Start\<close> that returned successfully found at
  least one input device.
\<close>

fun started_some :: "(call \<times> (exn + unit)) list \<Rightarrow> bool" where
  "started_some [] = False"
| "started_some ((Start a noise, Inr u) # log) =
     ((input_devices a \<noteq> [] \<and> no_stop log) \<or> started_some log)"
| "started_some ((c, r) # log) = started_some log"

text \<open>Every session that the recorder tracks has ended.\<close>

definition all_exited :: "world \<Rightarrow> bool" where
  "all_exited w =
     list_all (\<lambda>i. i < length (sessions w) \<and> exited (pc (sessions w ! i))) (recording_threads w)"

subsection \<open>Example values\<close>

text \<open>
  A machine with one microphone (device 0) and one output device (device 1) on the default
  host API; a machine whose default host API lists no device that resolves as an input
  device; and a machine with two microphones of the same name.
\<close>

definition usb_mic :: device where
  "usb_mic = \<lparr>dev_name = ''USB Mic #1'', dev_hostapi = 0\<rparr>"

definition one_mic :: audio where
  "one_mic = \<lparr>default_input = usb_mic,
              hostapi_devices = (\<lambda>api. if api = 0 then [0, 1] else []),
              query_input = (\<lambda>index. if index = 0 then Some usb_mic else None)\<rparr>"

definition no_mic :: audio where
  "no_mic = \<lparr>default_input = usb_mic,
             hostapi_devices = (\<lambda>api. if api = 0 then [1] else []),
             query_input = (\<lambda>index. None)\<rparr>"

definition two_mics :: audio where
  "two_mics = \<lparr>default_input = usb_mic,
               hostapi_devices = (\<lambda>api. if api = 0 then [0, 1] else []),
               query_input = (\<lambda>index. if index < 2 then Some usb_mic else None)\<rparr>"

definition empty_disk :: filesys where
  "empty_disk = \<lparr>files = (\<lambda>p. None), dirs = {}\<rparr>"

text \<open>A step of a thread in which nothing fails, with one candidate name for \<^verbatim>\<open>mktemp\<close>.\<close>

definition quiet :: env where
  "quiet = \<lparr>temp_names = [''k3x9wq1z''], stream_fault = None, write_fault = None\<rparr>"

text \<open>The recorder of the first machine after \<^verbatim>\<open>record("beep")\<close>.\<close>

definition recording_world :: world where
  "recording_world = snd (Recorder_record one_mic ''beep'' (Recorder_init empty_disk))"

text \<open>A session in its loop, with its file open and nothing written or queued yet.\<close>

definition loop_session :: session where
  "loop_session =
     (started_session ''beep'' 0)
       \<lparr>pc := LoopHead,
        file_name := [''./noise_recordings'', ''USB_Mic_1'', ''beep_k3x9wq1z.flac'']\<rparr>"

definition loop_disk :: filesys where
  "loop_disk =
     \<lparr>files = (\<lambda>p. if p = [''./noise_recordings'', ''USB_Mic_1'', ''beep_k3x9wq1z.flac'']
                     then Some [] else None),
      dirs = {[''./noise_recordings''], [''./noise_recordings'', ''USB_Mic_1'']}\<rparr>"



text \<open>
  The third machine after \<^verbatim>\<open>record("beep")\<close>: both sessions have drawn the same name
  from \<^verbatim>\<open>mktemp\<close> before either created its file; the first has then opened its file
  and written one block.
\<close>

definition collision_world :: world where
  "collision_world =
     pipelines_run two_mics
       [(0, Thread quiet), (1, Thread quiet), (0, Thread quiet), (0, Thread quiet),
        (0, Callback [5]), (0, Thread quiet)]
       (snd (Recorder_record two_mics ''beep'' (Recorder_init empty_disk)))"

section \<open>Properties of the directory name\<close>

text \<open>\<open>runs\<close> really cuts a list into its maximal runs.\<close>

lemma concat_runs: "concat (runs P xs) = xs"
  by (induction P xs rule: runs.induct) simp_all

lemma runs_nonempty: "r \<in> set (runs P xs) \<Longrightarrow> r \<noteq> []"
  by (induction P xs rule: runs.induct) auto

lemma runs_uniform: "r \<in> set (runs P xs) \<Longrightarrow> y \<in> set r \<Longrightarrow> P y = P (hd r)"
  by (induction P xs rule: runs.induct) (auto dest: set_takeWhileD)

lemma hd_runs_dropWhile:
  "runs P (dropWhile (\<lambda>y. P y = b) xs) = r # rs \<Longrightarrow> P (hd r) \<noteq> b"
proof (cases "dropWhile (\<lambda>y. P y = b) xs")
  case Nil
  assume "runs P (dropWhile (\<lambda>y. P y = b) xs) = r # rs"
  then show ?thesis unfolding Nil by simp
next
  case (Cons z zs)
  assume "runs P (dropWhile (\<lambda>y. P y = b) xs) = r # rs"
  then have "hd r = z" unfolding Cons by auto
  moreover have "P z \<noteq> b"
    using hd_dropWhile [of "\<lambda>y. P y = b" xs] unfolding Cons by simp
  ultimately show ?thesis by simp
qed

lemma runs_maximal: "successively (\<lambda>r s. P (hd r) \<noteq> P (hd s)) (runs P xs)"
proof (induction P xs rule: runs.induct)
  case (1 P)
  show ?case by simp
next
  case (2 P x xs)
  show ?case
  proof (cases "runs P (dropWhile (\<lambda>y. P y = P x) xs)")
    case Nil
    then show ?thesis by simp
  next
    case (Cons r rs)
    from hd_runs_dropWhile [OF Cons] have "P x \<noteq> P (hd r)" by simp
    with 2 Cons show ?thesis by simp
  qed
qed

lemma re_sub_alnum_prefix:
  "re_sub xs = takeWhile alnum xs @ re_sub (dropWhile alnum xs)"
  by (induction xs) simp_all

lemma re_sub_runs:
  "re_sub xs = concat (map (\<lambda>r. if alnum (hd r) then r else ''_'') (runs alnum xs))"
proof (induction "alnum" xs rule: runs.induct)
  case 1
  show ?case by simp
next
  case (2 x xs)
  show ?case
  proof (cases "alnum x")
    case True
    then have eq: "(\<lambda>y. alnum y = alnum x) = alnum" by auto
    have "re_sub (x # xs) = x # takeWhile alnum xs @ re_sub (dropWhile alnum xs)"
      using True re_sub_alnum_prefix [of xs] by simp
    with 2 True show ?thesis by (simp add: eq)
  next
    case False
    then have eq: "(\<lambda>y. alnum y = alnum x) = (\<lambda>d. \<not> alnum d)" by auto
    from 2 False show ?thesis by (simp add: eq)
  qed
qed

text \<open>
  C7. For every device display name, the directory name that \<^verbatim>\<open>run\<close> computes is the
  display name with every maximal run of characters outside \<^verbatim>\<open>[a-zA-Z0-9]\<close> replaced by
  one underscore, cut to its first 40 characters; it is never longer than 40 characters.
\<close>

theorem mic_directory_collapses_runs:
  "mic_directory device_name = spec_directory_name device_name
   \<and> length (mic_directory device_name) \<le> 40"
  by (simp add: mic_directory_def spec_directory_name_def Let_def re_sub_runs)

theorem mic_directory_collapses_runs_witness:
  "mic_directory ''USB Mic #1'' = ''USB_Mic_1''
   \<and> spec_directory_name ''USB Mic #1'' = ''USB_Mic_1''
   \<and> mic_directory ''Built-in Mic'' = ''Built_in_Mic''"
  using mic_directory_collapses_runs [of "''USB Mic #1''"]
    mic_directory_collapses_runs [of "''Built-in Mic''"]
  by (simp add: spec_directory_name_def alnum_def)

section \<open>The recorder's list of sessions\<close>

lemma recording_threads_pipeline_event:
  "recording_threads (pipeline_event a ie w) = recording_threads w"
  by (simp add: pipeline_event_def split: prod.splits)

lemma recording_threads_pipelines_run:
  "recording_threads (pipelines_run a evs w) = recording_threads w"
  unfolding pipelines_run_def
  by (induction evs arbitrary: w) (simp_all add: recording_threads_pipeline_event)

lemma length_recording_threads_spawn:
  "length (recording_threads (fold (spawn noise) ds w)) = length (recording_threads w) + length ds"
  by (induction ds arbitrary: w) (simp_all add: spawn_def)

lemma recording_after_record:
  assumes "recording_threads w = []"
  shows "Recorder_recording (snd (Recorder_record a noise w)) = (input_devices a \<noteq> [])"
proof -
  have "length (recording_threads (fold (spawn noise) (input_devices a) w))
          = length (input_devices a)"
    using assms by (simp add: length_recording_threads_spawn)
  then have "(recording_threads (fold (spawn noise) (input_devices a) w) = [])
          = (input_devices a = [])"
    by (metis length_0_conv)
  with assms show ?thesis
    by (simp add: Recorder_record_def Recorder_recording_def)
qed

lemma recording_threads_stop: "recording_threads (Recorder_stop a during w) = []"
  by (simp add: Recorder_stop_def Let_def)

text \<open>
  C1. Whenever the list of sessions is not empty, \<^verbatim>\<open>record\<close> raises the
  \<^verbatim>\<open>RuntimeError\<close> "Already recording ..." and leaves everything as it was: the list, the
  session objects and the file system. The outcome is the same for every audio
  subsystem \<open>a\<close>: no device is queried and no session is created.
\<close>

theorem record_while_recording_fails:
  assumes "recording_threads w \<noteq> []"
  shows "Recorder_record a noise w =
    (Inl (RuntimeError ''Already recording. Please `stop` the previous recording first.''), w)"
  using assms by (simp add: Recorder_record_def)

theorem record_while_recording_fails_witness:
  "recording_threads recording_world = [0]
   \<and> Recorder_record two_mics ''boop'' recording_world =
       (Inl (RuntimeError ''Already recording. Please `stop` the previous recording first.''),
        recording_world)"
proof -
  have h: "recording_threads recording_world = [0]"
    by (simp add: recording_world_def one_mic_def usb_mic_def empty_disk_def
        Recorder_record_def Recorder_init_def input_devices_def spawn_def
        started_session_def DEFAULT_RECORDINGS_DIR_def List.map_filter_def)
  then have "recording_threads recording_world \<noteq> []" by simp
  from record_while_recording_fails [OF this] h show ?thesis by simp
qed

section \<open>Sequences of calls\<close>

lemma fst_exec_Cons:
  "fst (exec (c # cs) w) = (c, fst (exec_call c w)) # fst (exec cs (snd (exec_call c w)))"
  by (simp split: prod.splits)

lemma snd_exec_Cons: "snd (exec (c # cs) w) = snd (exec cs (snd (exec_call c w)))"
  by (simp split: prod.splits)

text \<open>
  From any state: after a sequence of calls the recorder is recording if and only if a
  \<^verbatim>\<open>record\<close> of the sequence started a session that no later \<^verbatim>\<open>stop\<close> dropped, or it
  was recording before and the sequence has no \<^verbatim>\<open>stop\<close>.
\<close>

lemma exec_recording:
  "Recorder_recording (snd (exec cs w)) =
     (if no_stop (fst (exec cs w)) then Recorder_recording w \<or> started_some (fst (exec cs w))
      else started_some (fst (exec cs w)))"
proof (induction cs arbitrary: w)
  case Nil
  show ?case by simp
next
  case (Cons c cs)
  show ?case
  proof (cases c)
    case (Start a noise)
    show ?thesis
    proof (cases "recording_threads w = []")
      case True
      obtain w1 where w1: "Recorder_record a noise w = (Inr (), w1)"
        using True by (simp add: Recorder_record_def)
      have r1: "Recorder_recording w1 = (input_devices a \<noteq> [])"
        using recording_after_record [OF True, of a noise] w1 by simp
      have r0: "\<not> Recorder_recording w"
        using True by (simp add: Recorder_recording_def)
      show ?thesis
        unfolding fst_exec_Cons snd_exec_Cons Start
        using Cons.IH [of w1] w1 r1 r0 by auto
    next
      case False
      then have w1: "Recorder_record a noise w =
          (Inl (RuntimeError ''Already recording. Please `stop` the previous recording first.''), w)"
        by (simp add: Recorder_record_def)
      show ?thesis
        unfolding fst_exec_Cons snd_exec_Cons Start
        using Cons.IH [of w] w1 by auto
    qed
  next
    case (Stop a during)
    have "\<not> Recorder_recording (Recorder_stop a during w)"
      by (simp add: Recorder_recording_def recording_threads_stop)
    then show ?thesis
      unfolding fst_exec_Cons snd_exec_Cons Stop
      using Cons.IH [of "Recorder_stop a during w"] by auto
  next
    case (Activity a evs)
    have "Recorder_recording (pipelines_run a evs w) = Recorder_recording w"
      by (simp add: Recorder_recording_def recording_threads_pipelines_run)
    then show ?thesis
      unfolding fst_exec_Cons snd_exec_Cons Activity
      using Cons.IH [of "pipelines_run a evs w"] by auto
  qed
qed

text \<open>
  The claim C2 as the specification words it fails where \<^verbatim>\<open>record\<close> finds no input
  device: the call returns successfully, no \<^verbatim>\<open>stop\<close> follows, and \<^verbatim>\<open>recording\<close> is
  false.
\<close>

theorem is_recording_start_without_devices_counterexample:
  "\<not> (Recorder_recording (snd (exec [Start no_mic ''beep''] (Recorder_init empty_disk)))
       = spec_is_recording (fst (exec [Start no_mic ''beep''] (Recorder_init empty_disk))))"
  by (simp add: no_mic_def usb_mic_def empty_disk_def Recorder_recording_def
        Recorder_record_def Recorder_init_def input_devices_def spawn_def
        started_session_def DEFAULT_RECORDINGS_DIR_def List.map_filter_def)

text \<open>
  C2, amended. For every sequence of \<^verbatim>\<open>record\<close> and \<^verbatim>\<open>stop\<close> calls on a new recorder,
  with any activity of the sessions in between, \<^verbatim>\<open>recording\<close> returns true if and only
  if some \<^verbatim>\<open>record\<close> has returned successfully having found at least one input device,
  and no \<^verbatim>\<open>stop\<close> has been called after it.
\<close>

theorem is_recording_iff_started_some:
  "Recorder_recording (snd (exec cs (Recorder_init fsys)))
     = started_some (fst (exec cs (Recorder_init fsys)))"
proof -
  have "\<not> Recorder_recording (Recorder_init fsys)"
    by (simp add: Recorder_recording_def Recorder_init_def)
  then show ?thesis
    using exec_recording [of cs "Recorder_init fsys"] by simp
qed

theorem is_recording_iff_started_some_witness:
  "Recorder_recording (snd (exec [Start one_mic ''beep'', Start one_mic ''boop'']
       (Recorder_init empty_disk)))
   \<and> started_some (fst (exec [Start one_mic ''beep'', Start one_mic ''boop'']
       (Recorder_init empty_disk)))
   \<and> \<not> Recorder_recording (snd (exec [Start one_mic ''beep'', Stop one_mic (\<lambda>i. [])]
       (Recorder_init empty_disk)))
   \<and> \<not> started_some (fst (exec [Start no_mic ''beep''] (Recorder_init empty_disk)))"
proof -
  have a: "started_some (fst (exec [Start one_mic ''beep'', Start one_mic ''boop'']
       (Recorder_init empty_disk)))"
    by (simp add: one_mic_def usb_mic_def empty_disk_def
        Recorder_record_def Recorder_init_def input_devices_def spawn_def
        started_session_def DEFAULT_RECORDINGS_DIR_def List.map_filter_def)
  have b: "\<not> started_some (fst (exec [Start one_mic ''beep'', Stop one_mic (\<lambda>i. [])]
       (Recorder_init empty_disk)))"
    by (simp add: one_mic_def usb_mic_def empty_disk_def
        Recorder_record_def Recorder_init_def input_devices_def spawn_def
        started_session_def DEFAULT_RECORDINGS_DIR_def List.map_filter_def)
  have c: "\<not> started_some (fst (exec [Start no_mic ''beep''] (Recorder_init empty_disk)))"
    by (simp add: no_mic_def usb_mic_def empty_disk_def
        Recorder_record_def Recorder_init_def input_devices_def spawn_def
        started_session_def DEFAULT_RECORDINGS_DIR_def List.map_filter_def)
  from a b c show ?thesis
    using is_recording_iff_started_some
        [of "[Start one_mic ''beep'', Start one_mic ''boop'']" empty_disk]
      is_recording_iff_started_some
        [of "[Start one_mic ''beep'', Stop one_mic (\<lambda>i. [])]" empty_disk]
    by simp
qed

section \<open>Stopping\<close>

text \<open>
  C3. In every state and whatever the sessions do while they are joined, after \<^verbatim>\<open>stop\<close>
  the list of sessions is empty and \<^verbatim>\<open>recording\<close> returns false. (In the witness the
  thread of the session takes no step while it is joined: it has not ended when \<^verbatim>\<open>stop\<close>
  returns, and is dropped from the list all the same.)
\<close>

theorem stop_clears_active_set:
  "recording_threads (Recorder_stop a during w) = []
   \<and> \<not> Recorder_recording (Recorder_stop a during w)"
  by (simp add: Recorder_recording_def recording_threads_stop)

theorem stop_clears_active_set_witness:
  "recording_threads (Recorder_stop one_mic (\<lambda>i. []) recording_world) = []
   \<and> \<not> Recorder_recording (Recorder_stop one_mic (\<lambda>i. []) recording_world)
   \<and> \<not> exited (pc (sessions (Recorder_stop one_mic (\<lambda>i. []) recording_world) ! 0))
   \<and> exit_flag (sessions (Recorder_stop one_mic (\<lambda>i. []) recording_world) ! 0)"
proof -
  have "\<not> exited (pc (sessions (Recorder_stop one_mic (\<lambda>i. []) recording_world) ! 0))
   \<and> exit_flag (sessions (Recorder_stop one_mic (\<lambda>i. []) recording_world) ! 0)"
    by (simp add: recording_world_def one_mic_def usb_mic_def empty_disk_def
        Recorder_record_def Recorder_init_def input_devices_def spawn_def
        started_session_def DEFAULT_RECORDINGS_DIR_def List.map_filter_def
        Recorder_stop_def stop_session_def session_stop_def join_def pipelines_run_def)
  with stop_clears_active_set [of one_mic "\<lambda>i. []" recording_world] show ?thesis by simp
qed

text \<open>
  C9. \<^verbatim>\<open>stop\<close> on a recorder whose list of sessions is empty changes nothing (and, like
  every \<^verbatim>\<open>stop\<close>, raises nothing); and in every state a second \<^verbatim>\<open>stop\<close> after a
  \<^verbatim>\<open>stop\<close> leaves the state that the first one produced.
\<close>

theorem stop_idempotent:
  "(recording_threads w = [] \<longrightarrow> Recorder_stop a during w = w)
   \<and> Recorder_stop a during' (Recorder_stop a during w) = Recorder_stop a during w"
  by (simp add: Recorder_stop_def Let_def)

theorem stop_idempotent_witness:
  "Recorder_stop one_mic (\<lambda>i. []) (Recorder_init empty_disk) = Recorder_init empty_disk
   \<and> Recorder_stop one_mic (\<lambda>i. []) (Recorder_stop one_mic (\<lambda>i. []) recording_world)
       = Recorder_stop one_mic (\<lambda>i. []) recording_world"
proof -
  have "recording_threads (Recorder_init empty_disk) = []"
    by (simp add: Recorder_init_def)
  with stop_idempotent [of "Recorder_init empty_disk" one_mic "\<lambda>i. []"]
    stop_idempotent [of recording_world one_mic "\<lambda>i. []" "\<lambda>i. []"]
  show ?thesis by simp
qed

text \<open>
  C10. Nothing that a session does, ending included, changes the recorder's list of
  sessions; so when the recorder was recording and every session it tracks has ended
  (finished, aborted or crashed), \<^verbatim>\<open>recording\<close> still returns true.
\<close>

theorem ended_pipeline_stays_tracked:
  "recording_threads (pipelines_run a evs w) = recording_threads w
   \<and> (Recorder_recording w \<and> all_exited (pipelines_run a evs w)
        \<longrightarrow> Recorder_recording (pipelines_run a evs w))"
  by (simp add: Recorder_recording_def recording_threads_pipelines_run)

theorem ended_pipeline_stays_tracked_witness:
  "Recorder_recording recording_world
   \<and> all_exited (pipelines_run one_mic
        [(0, Thread quiet), (0, Thread quiet), (0, Thread quiet), (0, Thread quiet)]
        recording_world)
   \<and> Recorder_recording (pipelines_run one_mic
        [(0, Thread quiet), (0, Thread quiet), (0, Thread quiet), (0, Thread quiet)]
        recording_world)"
proof -
  have h: "Recorder_recording recording_world
   \<and> all_exited (pipelines_run one_mic
        [(0, Thread quiet), (0, Thread quiet), (0, Thread quiet), (0, Thread quiet)]
        recording_world)"
    by (simp add: recording_world_def one_mic_def usb_mic_def empty_disk_def quiet_def
        Recorder_record_def Recorder_init_def input_devices_def spawn_def
        started_session_def DEFAULT_RECORDINGS_DIR_def List.map_filter_def
        Recorder_recording_def all_exited_def pipelines_run_def pipeline_event_def
        run_step_def handle_in_loop_def
        mkdir_parents_def mktemp_def mic_directory_def alnum_def SoundFile_open_x_def)
  with ended_pipeline_stays_tracked [of one_mic
        "[(0, Thread quiet), (0, Thread quiet), (0, Thread quiet), (0, Thread quiet)]"
        recording_world]
  show ?thesis by blast
qed

section \<open>The destructor\<close>

lemma Recorder_del_noop: "Recorder_del a during w = w"
  by (simp add: Recorder_del_def Recorder_call_def)

text \<open>
  C6 (the code departs from the claim). \<^verbatim>\<open>__del__\<close> calls \<^verbatim>\<open>self._stop()\<close>, and a
  \<^verbatim>\<open>Recorder\<close> has no attribute of that name (the method is \<^verbatim>\<open>stop\<close>): the lookup raises
  \<^verbatim>\<open>AttributeError\<close>, which the bare \<^verbatim>\<open>except\<close> drops. On a recorder that is recording,
  the destructor changes nothing: the session is not told to stop, and it stays in the
  list, where \<^verbatim>\<open>stop\<close> would have set its flag and emptied the list.
\<close>

theorem del_does_not_stop:
  "Recorder_call ''_stop'' one_mic (\<lambda>i. []) recording_world = Inl (AttributeError ''_stop'')
   \<and> Recorder_del one_mic (\<lambda>i. []) recording_world = recording_world
   \<and> Recorder_recording (Recorder_del one_mic (\<lambda>i. []) recording_world)
   \<and> \<not> exit_flag (sessions (Recorder_del one_mic (\<lambda>i. []) recording_world) ! 0)
   \<and> exit_flag (sessions (Recorder_stop one_mic (\<lambda>i. []) recording_world) ! 0)
   \<and> \<not> Recorder_recording (Recorder_stop one_mic (\<lambda>i. []) recording_world)"
  by (simp add: Recorder_del_def Recorder_call_def Recorder_recording_def
        Recorder_stop_def stop_session_def session_stop_def join_def pipelines_run_def
        recording_world_def one_mic_def usb_mic_def empty_disk_def
        Recorder_record_def Recorder_init_def input_devices_def spawn_def
        started_session_def DEFAULT_RECORDINGS_DIR_def List.map_filter_def)

section \<open>The writer loop\<close>

lemma get_timeout_aborts:
  "pc s = InGet \<Longrightarrow> chunk_queue s = [] \<Longrightarrow>
   run_step a e (fsys, s) = (fsys, s\<lparr>pc := Aborted QueueEmpty\<rparr>)"
  by (simp add: run_step_def handle_in_loop_def)









text \<open>
  C5 (the code departs from the claim). A session in its loop, stop flag not set, queue
  empty: the thread enters \<^verbatim>\<open>get\<close>, no block arrives, and \<^verbatim>\<open>get\<close> raises
  \<^verbatim>\<open>queue.Empty\<close>. \<^verbatim>\<open>except TimeoutError\<close> does not take it; \<^verbatim>\<open>except Exception\<close>
  does, and the session aborts.
\<close>

theorem empty_queue_timeout_aborts:
  "\<not> exit_flag loop_session \<and> chunk_queue loop_session = []
   \<and> pc (snd (session_run one_mic [Thread quiet] (loop_disk, loop_session))) = InGet
   \<and> pc (snd (session_run one_mic [Thread quiet, Thread quiet] (loop_disk, loop_session)))
       = Aborted QueueEmpty"
  by (simp add: loop_session_def loop_disk_def quiet_def started_session_def
        session_run_def run_step_def handle_in_loop_def)

section \<open>Creating the output file\<close>

text \<open>
  C8. For every session about to create its output file: if a file of the chosen name
  exists, the step raises the error of the exclusive creation, the session aborts, and
  the file system is unchanged, the existing file with it.
\<close>

theorem existing_file_is_not_overwritten:
  assumes "pc s = AtOpen" and "files fsys (file_name s) = Some old"
  shows "run_step a e (fsys, s) = (fsys, s\<lparr>pc := Aborted (OSError ''File exists'')\<rparr>)"
  using assms by (simp add: run_step_def SoundFile_open_x_def)

theorem existing_file_is_not_overwritten_witness:
  "pc (sessions collision_world ! 1) = AtOpen
   \<and> file_name (sessions collision_world ! 1) = file_name (sessions collision_world ! 0)
   \<and> files (disk collision_world) (file_name (sessions collision_world ! 1)) = Some [[5]]
   \<and> run_step two_mics quiet (disk collision_world, sessions collision_world ! 1)
       = (disk collision_world,
          (sessions collision_world ! 1)\<lparr>pc := Aborted (OSError ''File exists'')\<rparr>)"
proof -
  have h: "pc (sessions collision_world ! 1) = AtOpen"
      "files (disk collision_world) (file_name (sessions collision_world ! 1)) = Some [[5]]"
    by (simp_all add: collision_world_def two_mics_def usb_mic_def empty_disk_def quiet_def
        Recorder_record_def Recorder_init_def input_devices_def spawn_def
        started_session_def DEFAULT_RECORDINGS_DIR_def List.map_filter_def
        pipelines_run_def pipeline_event_def run_step_def handle_in_loop_def
        mkdir_parents_def mktemp_def mic_directory_def alnum_def SoundFile_open_x_def SoundFile_write_def content_def callback_def)
  have f: "file_name (sessions collision_world ! 1) = file_name (sessions collision_world ! 0)"
    by (simp add: collision_world_def two_mics_def usb_mic_def empty_disk_def quiet_def
        Recorder_record_def Recorder_init_def input_devices_def spawn_def
        started_session_def DEFAULT_RECORDINGS_DIR_def List.map_filter_def
        pipelines_run_def pipeline_event_def run_step_def handle_in_loop_def
        mkdir_parents_def mktemp_def mic_directory_def alnum_def SoundFile_open_x_def SoundFile_write_def content_def callback_def)
  from existing_file_is_not_overwritten [OF h, of two_mics quiet] h f
  show ?thesis by simp
qed

end
